theory Spec2Isabelle
  imports Main "HOL-Library.Word"
begin

section \<open>The BLE server of ESP32\_BLE\_Arduino (src/src/BLEServer.cpp)\<close>

text \<open>
  A shallow embedding of \<^verbatim>\<open>BLEServer\<close>: the object's members are the fields of a
  record, every member function takes the server and returns the updated server.
  Calls that leave the class (logger, controller API, semaphores, application
  callbacks, BLEDevice, the service objects) are appended, in program order, to
  the field \<open>calls\<close>, so that a statement can say which calls were made.
\<close>

subsection \<open>Machine types\<close>

type_synonym uint8_t = "8 word"
type_synonym int8_t = "8 word"
type_synonym uint16_t = "16 word"
type_synonym uint32_t = "32 word"
type_synonym c_int = "32 word"

text \<open>\<^verbatim>\<open>esp_err_t\<close> is a 32-bit int; \<^verbatim>\<open>ESP_OK\<close> is 0 and \<^verbatim>\<open>ESP_FAIL\<close> is -1.\<close>

type_synonym esp_err_t = "32 word"

definition ESP_OK :: esp_err_t where
  "ESP_OK = 0"

definition ESP_FAIL :: esp_err_t where
  "ESP_FAIL = - 1"

text \<open>\<^verbatim>\<open>esp_gatt_status_t\<close> is a C enum of non-negative values; \<^verbatim>\<open>ESP_GATT_OK\<close> is 0x0.\<close>

type_synonym esp_gatt_status_t = "32 word"

definition ESP_GATT_OK :: esp_gatt_status_t where
  "ESP_GATT_OK = 0"

definition ESP_GATT_IF_NONE :: uint16_t where
  "ESP_GATT_IF_NONE = 0xff"

text \<open>\<^verbatim>\<open>esp_bd_addr_t\<close> is \<^verbatim>\<open>uint8_t[6]\<close>: exactly six bytes.\<close>

datatype esp_bd_addr_t = BdAddr uint8_t uint8_t uint8_t uint8_t uint8_t uint8_t

text \<open>A UUID is kept in its canonical string form (\<^verbatim>\<open>uuid.toString()\<close>).\<close>

type_synonym BLEUUID = string

text \<open>
  \<^verbatim>\<open>void* peer_device\<close>: the dispatcher only ever stores \<^verbatim>\<open>this\<close>; other callers
  of \<^verbatim>\<open>addPeerDevice\<close> may store any other object.
\<close>

datatype void_ptr = BLEServer_this | Other_object nat

text \<open>\<^verbatim>\<open>BLEService*\<close> and \<^verbatim>\<open>BLEServerCallbacks*\<close>; \<^verbatim>\<open>nullptr\<close> is \<open>None\<close> of the option type.\<close>

type_synonym BLEService_ptr = nat
type_synonym BLEServerCallbacks_ptr = nat

subsection \<open>Controller events\<close>

text \<open>
  The event kind and the member of the parameter union that the handler reads for this
  kind, as one tagged value. Kinds that the \<^verbatim>\<open>switch\<close> of \<^verbatim>\<open>handleGATTServerEvent\<close>
  does not name reach its \<^verbatim>\<open>default\<close> branch: they are \<open>ESP_GATTS_other_EVT\<close> with the
  numeric code of the kind.
\<close>

datatype gatts_event =
    ESP_GATTS_ADD_CHAR_EVT
  | ESP_GATTS_MTU_EVT uint16_t uint16_t
  | ESP_GATTS_CONNECT_EVT uint16_t esp_bd_addr_t
  | ESP_GATTS_CREATE_EVT esp_gatt_status_t uint16_t BLEUUID uint8_t
  | ESP_GATTS_DISCONNECT_EVT uint16_t esp_bd_addr_t nat
  | ESP_GATTS_READ_EVT
  | ESP_GATTS_REG_EVT esp_gatt_status_t uint16_t
  | ESP_GATTS_WRITE_EVT
  | ESP_GATTS_OPEN_EVT esp_gatt_status_t
  | ESP_GATTS_other_EVT nat

text \<open>
  GAP events: the RSSI completion carries \<^verbatim>\<open>status\<close>, \<^verbatim>\<open>int8_t rssi\<close> and
  \<^verbatim>\<open>remote_addr\<close>; every other kind reaches \<^verbatim>\<open>default\<close>.
\<close>

datatype gap_event =
    ESP_GAP_BLE_READ_RSSI_COMPLETE_EVT nat int8_t esp_bd_addr_t
  | ESP_GAP_BLE_other_EVT nat

text \<open>What the controller's task delivers: a GATT server event with its interface, or a GAP event.\<close>

datatype controller_event =
    GattsEvent gatts_event uint8_t
  | GapEvent gap_event

subsection \<open>Calls that leave the class\<close>

datatype log_level = Debug | Warning | Error

datatype sem_id = RegisterAppEvt | CreateEvt | OpenEvt | RssiCmplEvt

text \<open>
  A log entry keeps the level and the literal text of the message; a UUID printed in the
  message is appended, an event name or a number appended to it is left out.
\<close>

datatype call =
    Log log_level string
  | Sem_take sem_id
  | Sem_give sem_id
  | Sem_wait sem_id
  | Esp_ble_gatts_app_register uint16_t
  | Esp_ble_gatts_open uint16_t esp_bd_addr_t
  | Esp_ble_gap_read_rssi esp_bd_addr_t
  | Callbacks_onConnect BLEServerCallbacks_ptr
  | Callbacks_onConnect_param BLEServerCallbacks_ptr
  | Callbacks_onDisconnect BLEServerCallbacks_ptr
  | BLEDevice_startAdvertising
  | Service_executeCreate BLEService_ptr
  | ServiceMap_handleGATTServerEvent gatts_event uint8_t

subsection \<open>The state of the server\<close>

record conn_status_t =
  peer_device :: void_ptr
  connected :: bool
  mtu :: uint16_t

text \<open>
  Modelled from the spec: \<^verbatim>\<open>FreeRTOS::Semaphore\<close> is not under src/. The spec's
  rendezvous is a single slot for a single waiter: \<open>armed\<close> says that it has been taken
  for a waiter, \<open>signalled\<close> that a producer has stored a value, \<open>m_value\<close> is the value.
\<close>

record Semaphore =
  armed :: bool
  signalled :: bool
  m_value :: uint32_t

text \<open>
  Modelled from the spec: \<^verbatim>\<open>BLEService\<close> and \<^verbatim>\<open>BLEServiceMap\<close> are not under src/.
  A service object holds its UUID, the capacity hint and the instance discriminator;
  the registry holds the services by UUID in insertion order and by hardware handle.
  The pointer stored for a handle may be \<^verbatim>\<open>nullptr\<close>.
\<close>

record BLEService =
  service_uuid :: BLEUUID
  service_numHandles :: uint32_t
  m_instId :: uint8_t

record BLEServiceMap =
  m_uuidMap :: "(BLEUUID \<times> BLEService_ptr) list"
  m_handleMap :: "uint16_t \<rightharpoonup> BLEService_ptr option"

text \<open>
  The members of \<^verbatim>\<open>BLEServer\<close>. \<open>service_heap\<close> holds the objects made by
  \<^verbatim>\<open>new BLEService\<close> (a pointer is the index of its object); \<open>calls\<close> is the
  record of the calls that left the class.
\<close>

record BLEServer =
  m_appId :: uint16_t
  m_connId :: uint16_t
  m_connectedCount :: uint32_t
  m_gatts_if :: uint16_t
  m_connectedServersMap :: "uint16_t \<rightharpoonup> conn_status_t"
  m_semaphoreRegisterAppEvt :: Semaphore
  m_semaphoreCreateEvt :: Semaphore
  m_semaphoreOpenEvt :: Semaphore
  m_semaphoreRssiCmplEvt :: Semaphore
  m_serviceMap :: BLEServiceMap
  m_pServerCallbacks :: "BLEServerCallbacks_ptr option"
  m_client_addr :: esp_bd_addr_t
  service_heap :: "BLEService list"
  calls :: "call list"

datatype error = DoubleArm | AwaitWithoutArm | BlockedForever | EndIteratorDereferenced

definition emit :: "call \<Rightarrow> BLEServer \<Rightarrow> BLEServer" where
  "emit c s = s\<lparr>calls := calls s @ [c]\<rparr>"

definition logger :: "log_level \<Rightarrow> string \<Rightarrow> BLEServer \<Rightarrow> BLEServer" where
  "logger lvl msg s = emit (Log lvl msg) s"

text \<open>
  The constructor. \<^verbatim>\<open>m_client_addr\<close> is not initialised by it: the bytes found there
  are the argument \<open>junk\<close>. The semaphores start free, the containers empty.
\<close>

definition free_semaphore :: Semaphore where
  "free_semaphore = \<lparr>armed = False, signalled = False, m_value = 0\<rparr>"

definition BLEServer_ctor :: "esp_bd_addr_t \<Rightarrow> BLEServer" where
  "BLEServer_ctor junk =
     \<lparr>m_appId = ESP_GATT_IF_NONE,
      m_connId = ESP_GATT_IF_NONE,
      m_connectedCount = 0,
      m_gatts_if = ESP_GATT_IF_NONE,
      m_connectedServersMap = Map.empty,
      m_semaphoreRegisterAppEvt = free_semaphore,
      m_semaphoreCreateEvt = free_semaphore,
      m_semaphoreOpenEvt = free_semaphore,
      m_semaphoreRssiCmplEvt = free_semaphore,
      m_serviceMap = \<lparr>m_uuidMap = [], m_handleMap = Map.empty\<rparr>,
      m_pServerCallbacks = None,
      m_client_addr = junk,
      service_heap = [],
      calls = []\<rparr>"

subsection \<open>The connection table\<close>

text \<open>
  \<^verbatim>\<open>updatePeerMTU\<close>: \<^verbatim>\<open>find\<close>, and when the entry is there, the assignment to its
  \<^verbatim>\<open>mtu\<close> followed by \<^verbatim>\<open>std::swap(m_connectedServersMap[conn_id], it->second)\<close>. Both
  arguments of the swap are the same object (the key exists, so \<^verbatim>\<open>operator[]\<close> inserts
  nothing): the swap is written out as the three moves on that one slot.
\<close>

definition updatePeerMTU :: "BLEServer \<Rightarrow> uint16_t \<Rightarrow> uint16_t \<Rightarrow> BLEServer" where
  "updatePeerMTU s conn_id new_mtu =
     (case m_connectedServersMap s conn_id of
        None \<Rightarrow> s
      | Some e \<Rightarrow>
          (let m1 = (m_connectedServersMap s)(conn_id \<mapsto> e\<lparr>mtu := new_mtu\<rparr>);
               tmp = m1 conn_id;
               m2 = m1(conn_id := m1 conn_id);
               m3 = m2(conn_id := tmp)
           in s\<lparr>m_connectedServersMap := m3\<rparr>))"

definition getPeerDevices :: "BLEServer \<Rightarrow> bool \<Rightarrow> (uint16_t \<rightharpoonup> conn_status_t)" where
  "getPeerDevices s client = m_connectedServersMap s"

text \<open>
  \<^verbatim>\<open>getPeerMTU\<close> dereferences the iterator that \<^verbatim>\<open>find\<close> returns without comparing it
  with \<^verbatim>\<open>end()\<close>: for an absent key this is the error \<open>EndIteratorDereferenced\<close>.
\<close>

definition getPeerMTU :: "BLEServer \<Rightarrow> uint16_t \<Rightarrow> error + uint16_t" where
  "getPeerMTU s conn_id =
     (case m_connectedServersMap s conn_id of
        None \<Rightarrow> Inl EndIteratorDereferenced
      | Some e \<Rightarrow> Inr (mtu e))"

text \<open>\<^verbatim>\<open>addPeerDevice\<close>: \<^verbatim>\<open>std::map::insert\<close> keeps an entry that is already there.\<close>

definition addPeerDevice :: "BLEServer \<Rightarrow> void_ptr \<Rightarrow> bool \<Rightarrow> uint16_t \<Rightarrow> BLEServer" where
  "addPeerDevice s peer client conn_id =
     (let status = \<lparr>peer_device = peer, connected = True, mtu = 23\<rparr>
      in case m_connectedServersMap s conn_id of
           Some old \<Rightarrow> s
         | None \<Rightarrow> s\<lparr>m_connectedServersMap := (m_connectedServersMap s)(conn_id \<mapsto> status)\<rparr>)"

definition removePeerDevice :: "BLEServer \<Rightarrow> uint16_t \<Rightarrow> bool \<Rightarrow> BLEServer" where
  "removePeerDevice s conn_id client =
     s\<lparr>m_connectedServersMap := (m_connectedServersMap s)(conn_id := None)\<rparr>"

subsection \<open>Accessors\<close>

definition getConnId :: "BLEServer \<Rightarrow> uint16_t" where
  "getConnId s = m_connId s"

definition getConnectedCount :: "BLEServer \<Rightarrow> uint32_t" where
  "getConnectedCount s = m_connectedCount s"

definition getGattsIf :: "BLEServer \<Rightarrow> uint16_t" where
  "getGattsIf s = m_gatts_if s"

definition getPeerAddress :: "BLEServer \<Rightarrow> esp_bd_addr_t" where
  "getPeerAddress s = m_client_addr s"

definition setCallbacks :: "BLEServer \<Rightarrow> BLEServerCallbacks_ptr option \<Rightarrow> BLEServer" where
  "setCallbacks s pCallbacks = s\<lparr>m_pServerCallbacks := pCallbacks\<rparr>"

definition startAdvertising :: "BLEServer \<Rightarrow> BLEServer" where
  "startAdvertising s =
     logger Debug ''<< startAdvertising''
       (emit BLEDevice_startAdvertising (logger Debug ''>> startAdvertising'' s))"

subsection \<open>The semaphores\<close>

fun get_sem :: "sem_id \<Rightarrow> BLEServer \<Rightarrow> Semaphore" where
  "get_sem RegisterAppEvt s = m_semaphoreRegisterAppEvt s"
| "get_sem CreateEvt s = m_semaphoreCreateEvt s"
| "get_sem OpenEvt s = m_semaphoreOpenEvt s"
| "get_sem RssiCmplEvt s = m_semaphoreRssiCmplEvt s"

fun set_sem :: "sem_id \<Rightarrow> Semaphore \<Rightarrow> BLEServer \<Rightarrow> BLEServer" where
  "set_sem RegisterAppEvt v s = s\<lparr>m_semaphoreRegisterAppEvt := v\<rparr>"
| "set_sem CreateEvt v s = s\<lparr>m_semaphoreCreateEvt := v\<rparr>"
| "set_sem OpenEvt v s = s\<lparr>m_semaphoreOpenEvt := v\<rparr>"
| "set_sem RssiCmplEvt v s = s\<lparr>m_semaphoreRssiCmplEvt := v\<rparr>"

text \<open>
  Modelled from the spec: the operations of \<^verbatim>\<open>FreeRTOS::Semaphore\<close>, which is not
  under src/. \<open>arm\<close> (\<^verbatim>\<open>take\<close>) prepares the slot for a waiter; arming an armed
  rendezvous is a programming error that is surfaced at once. \<open>signal\<close> (\<^verbatim>\<open>give\<close>)
  stores the value and never blocks, whether or not somebody waits; the form without
  an argument stores no value.
\<close>

definition semaphore_take :: "sem_id \<Rightarrow> BLEServer \<Rightarrow> error + BLEServer" where
  "semaphore_take i s =
     (if armed (get_sem i s) then Inl DoubleArm
      else Inr (emit (Sem_take i) (set_sem i ((get_sem i s)\<lparr>armed := True\<rparr>) s)))"

definition semaphore_give_value :: "sem_id \<Rightarrow> uint32_t \<Rightarrow> BLEServer \<Rightarrow> BLEServer" where
  "semaphore_give_value i v s =
     emit (Sem_give i) (set_sem i ((get_sem i s)\<lparr>signalled := True, m_value := v\<rparr>) s)"

definition semaphore_give :: "sem_id \<Rightarrow> BLEServer \<Rightarrow> BLEServer" where
  "semaphore_give i s =
     emit (Sem_give i) (set_sem i ((get_sem i s)\<lparr>signalled := True\<rparr>) s)"

definition rendezvous_available :: "Semaphore \<Rightarrow> bool" where
  "rendezvous_available sem = (\<not> armed sem \<and> \<not> signalled sem)"

subsection \<open>The service registry\<close>

text \<open>
  Modelled from the spec: the operations of \<^verbatim>\<open>BLEServiceMap\<close>, which is not under
  src/. The lookup by (UUID, instance) returns the first service registered under the
  UUID: the source's comment at the lookup and the spec's section 4.2 both say that it does not
  tell services of one UUID apart by their instance. A handle, once bound, stays bound.
\<close>

fun first_with_uuid :: "(BLEUUID \<times> BLEService_ptr) list \<Rightarrow> BLEUUID \<Rightarrow> BLEService_ptr option" where
  "first_with_uuid [] uuid = None"
| "first_with_uuid ((u, p) # rest) uuid = (if u = uuid then Some p else first_with_uuid rest uuid)"

definition getByUUID :: "BLEServiceMap \<Rightarrow> BLEUUID \<Rightarrow> uint8_t \<Rightarrow> BLEService_ptr option" where
  "getByUUID m uuid inst_id = first_with_uuid (m_uuidMap m) uuid"

definition setByUUID :: "BLEServiceMap \<Rightarrow> BLEUUID \<Rightarrow> BLEService_ptr \<Rightarrow> BLEServiceMap" where
  "setByUUID m uuid service = m\<lparr>m_uuidMap := m_uuidMap m @ [(uuid, service)]\<rparr>"

definition setByHandle :: "BLEServiceMap \<Rightarrow> uint16_t \<Rightarrow> BLEService_ptr option \<Rightarrow> BLEServiceMap" where
  "setByHandle m handle service =
     (case m_handleMap m handle of
        Some bound \<Rightarrow> m
      | None \<Rightarrow> m\<lparr>m_handleMap := (m_handleMap m)(handle \<mapsto> service)\<rparr>)"

definition getByHandle :: "BLEServiceMap \<Rightarrow> uint16_t \<Rightarrow> BLEService_ptr option" where
  "getByHandle m handle = (case m_handleMap m handle of None \<Rightarrow> None | Some p \<Rightarrow> p)"

subsection \<open>The dispatcher\<close>

text \<open>
  The \<^verbatim>\<open>switch\<close> of \<^verbatim>\<open>handleGATTServerEvent\<close>, one equation for each \<^verbatim>\<open>case\<close>, the
  statements of a case in the order of the source.
\<close>

fun handleGATTServerEvent_switch :: "BLEServer \<Rightarrow> gatts_event \<Rightarrow> uint8_t \<Rightarrow> BLEServer" where
  "handleGATTServerEvent_switch s ESP_GATTS_ADD_CHAR_EVT gatts_if = s"
| "handleGATTServerEvent_switch s (ESP_GATTS_MTU_EVT conn_id new_mtu) gatts_if =
     updatePeerMTU s conn_id new_mtu"
| "handleGATTServerEvent_switch s (ESP_GATTS_CONNECT_EVT conn_id remote_bda) gatts_if =
     (let s1 = s\<lparr>m_connId := conn_id\<rparr>;
          s2 = addPeerDevice s1 BLEServer_this False (m_connId s1);
          s3 = s2\<lparr>m_client_addr := remote_bda\<rparr>;
          s4 = (case m_pServerCallbacks s3 of
                  None \<Rightarrow> s3
                | Some cb \<Rightarrow> emit (Callbacks_onConnect_param cb) (emit (Callbacks_onConnect cb) s3))
      in s4\<lparr>m_connectedCount := m_connectedCount s4 + 1\<rparr>)"
| "handleGATTServerEvent_switch s (ESP_GATTS_CREATE_EVT status service_handle uuid inst_id) gatts_if =
     (let pService = getByUUID (m_serviceMap s) uuid inst_id;
          s1 = s\<lparr>m_serviceMap := setByHandle (m_serviceMap s) service_handle pService\<rparr>
      in semaphore_give CreateEvt s1)"
| "handleGATTServerEvent_switch s (ESP_GATTS_DISCONNECT_EVT conn_id remote_bda reason) gatts_if =
     (let s1 = s\<lparr>m_connectedCount := m_connectedCount s - 1\<rparr>;
          s2 = (case m_pServerCallbacks s1 of
                  None \<Rightarrow> s1
                | Some cb \<Rightarrow> emit (Callbacks_onDisconnect cb) s1);
          s3 = startAdvertising s2
      in removePeerDevice s3 conn_id False)"
| "handleGATTServerEvent_switch s ESP_GATTS_READ_EVT gatts_if = s"
| "handleGATTServerEvent_switch s (ESP_GATTS_REG_EVT status app_id) gatts_if =
     semaphore_give RegisterAppEvt (s\<lparr>m_gatts_if := ucast gatts_if\<rparr>)"
| "handleGATTServerEvent_switch s ESP_GATTS_WRITE_EVT gatts_if = s"
| "handleGATTServerEvent_switch s (ESP_GATTS_OPEN_EVT status) gatts_if =
     semaphore_give_value OpenEvt status s"
| "handleGATTServerEvent_switch s (ESP_GATTS_other_EVT kind) gatts_if = s"

definition handleGATTServerEvent :: "BLEServer \<Rightarrow> gatts_event \<Rightarrow> uint8_t \<Rightarrow> BLEServer" where
  "handleGATTServerEvent s event gatts_if =
     (let s1 = logger Debug ''>> handleGATTServerEvent: '' s;
          s2 = handleGATTServerEvent_switch s1 event gatts_if;
          s3 = emit (ServiceMap_handleGATTServerEvent event gatts_if) s2
      in logger Debug ''<< handleGATTServerEvent'' s3)"

text \<open>
  \<^verbatim>\<open>handleGAPEvent\<close>: the \<^verbatim>\<open>int8_t\<close> measurement is converted to \<^verbatim>\<open>uint32_t\<close>, which
  extends its sign.
\<close>

fun handleGAPEvent_switch :: "BLEServer \<Rightarrow> gap_event \<Rightarrow> BLEServer" where
  "handleGAPEvent_switch s (ESP_GAP_BLE_READ_RSSI_COMPLETE_EVT status rssi remote_addr) =
     semaphore_give_value RssiCmplEvt (scast rssi) s"
| "handleGAPEvent_switch s (ESP_GAP_BLE_other_EVT kind) = s"

definition handleGAPEvent :: "BLEServer \<Rightarrow> gap_event \<Rightarrow> BLEServer" where
  "handleGAPEvent s event = handleGAPEvent_switch (logger Debug ''handling GAP event!'' s) event"

text \<open>
  Modelled from the spec: the static event handlers of \<^verbatim>\<open>BLEDevice\<close> are not under
  src/. The dispatcher is the single entry point for every event of the controller:
  a GATT server event goes to \<^verbatim>\<open>handleGATTServerEvent\<close>, a GAP event to \<^verbatim>\<open>handleGAPEvent\<close>.
\<close>

fun dispatch :: "BLEServer \<Rightarrow> controller_event \<Rightarrow> BLEServer" where
  "dispatch s (GattsEvent event gatts_if) = handleGATTServerEvent s event gatts_if"
| "dispatch s (GapEvent event) = handleGAPEvent s event"

subsection \<open>Blocking on a rendezvous\<close>

text \<open>
  Modelled from the spec: \<^verbatim>\<open>FreeRTOS::Semaphore::wait\<close>, which is not under src/. The
  caller blocks until the rendezvous is signalled, takes the value, and the slot is
  empty and free again. While the caller is blocked the controller's task runs the
  dispatcher: \<open>events\<close> are the events it delivers from the moment of the call, in order.
  When they end before the signal, the caller stays blocked: \<open>BlockedForever\<close>. Waiting
  on a rendezvous that was not armed is an error surfaced at once.
\<close>

fun await :: "sem_id \<Rightarrow> BLEServer \<Rightarrow> controller_event list \<Rightarrow> error + (uint32_t \<times> BLEServer)" where
  "await i s [] =
     (if \<not> armed (get_sem i s) then Inl AwaitWithoutArm
      else if signalled (get_sem i s)
        then Inr (m_value (get_sem i s),
                  set_sem i ((get_sem i s)\<lparr>armed := False, signalled := False\<rparr>) s)
      else Inl BlockedForever)"
| "await i s (e # es) =
     (if \<not> armed (get_sem i s) then Inl AwaitWithoutArm
      else if signalled (get_sem i s)
        then Inr (m_value (get_sem i s),
                  set_sem i ((get_sem i s)\<lparr>armed := False, signalled := False\<rparr>) s)
      else await i (dispatch s e) es)"

definition semaphore_wait :: "sem_id \<Rightarrow> BLEServer \<Rightarrow> controller_event list \<Rightarrow> error + (uint32_t \<times> BLEServer)" where
  "semaphore_wait i s events = await i (emit (Sem_wait i) s) events"

subsection \<open>The blocking operations\<close>

text \<open>
  Each blocking operation takes, besides its own arguments, what the controller does
  during the call: the code its request returns at once, and the events its task
  delivers while the caller waits.
\<close>

definition registerApp :: "BLEServer \<Rightarrow> uint16_t \<Rightarrow> controller_event list \<Rightarrow> error + BLEServer" where
  "registerApp s appId events =
     (let s1 = logger Debug ''>> registerApp - '' s
      in case semaphore_take RegisterAppEvt s1 of
           Inl err \<Rightarrow> Inl err
         | Inr s2 \<Rightarrow>
             (case semaphore_wait RegisterAppEvt (emit (Esp_ble_gatts_app_register appId) s2) events of
                Inl err \<Rightarrow> Inl err
              | Inr (v, s3) \<Rightarrow> Inr (logger Debug ''<< registerApp'' s3)))"

definition createApp :: "BLEServer \<Rightarrow> uint16_t \<Rightarrow> controller_event list \<Rightarrow> error + BLEServer" where
  "createApp s appId events = registerApp (s\<lparr>m_appId := appId\<rparr>) appId events"

text \<open>
  \<^verbatim>\<open>createService\<close>. \<^verbatim>\<open>new BLEService(uuid, numHandles)\<close> puts the object at the end of
  the heap; \<^verbatim>\<open>executeCreate\<close> is the service's request to the controller.
\<close>

definition createService ::
  "BLEServer \<Rightarrow> BLEUUID \<Rightarrow> uint32_t \<Rightarrow> uint8_t \<Rightarrow> controller_event list \<Rightarrow> error + (BLEService_ptr \<times> BLEServer)" where
  "createService s uuid numHandles inst_id events =
     (let s1 = logger Debug (''>> createService - '' @ uuid) s
      in case semaphore_take CreateEvt s1 of
           Inl err \<Rightarrow> Inl err
         | Inr s2 \<Rightarrow>
             (let s3 = (if getByUUID (m_serviceMap s2) uuid 0 \<noteq> None
                        then logger Warning
                               (''<< Attempt to create a new service with uuid '' @ uuid @
                                ''but a service with that UUID already exists.'') s2
                        else s2);
                  pService = length (service_heap s3);
                  s4 = s3\<lparr>service_heap := service_heap s3 @
                         [\<lparr>service_uuid = uuid, service_numHandles = numHandles, m_instId = 0\<rparr>]\<rparr>;
                  s5 = s4\<lparr>service_heap := (service_heap s4)
                         [pService := (service_heap s4 ! pService)\<lparr>m_instId := inst_id\<rparr>]\<rparr>;
                  s6 = s5\<lparr>m_serviceMap := setByUUID (m_serviceMap s5) uuid pService\<rparr>;
                  s7 = emit (Service_executeCreate pService) s6
              in case semaphore_wait CreateEvt s7 events of
                   Inl err \<Rightarrow> Inl err
                 | Inr (v, s8) \<Rightarrow> Inr (pService, logger Debug ''<< createService'' s8)))"

definition getServiceByUUID :: "BLEServer \<Rightarrow> BLEUUID \<Rightarrow> BLEService_ptr option" where
  "getServiceByUUID s uuid = getByUUID (m_serviceMap s) uuid 0"

text \<open>\<^verbatim>\<open>connect\<close>: \<open>errRc\<close> is what \<^verbatim>\<open>esp_ble_gatts_open\<close> returns.\<close>

definition connect ::
  "BLEServer \<Rightarrow> esp_bd_addr_t \<Rightarrow> esp_err_t \<Rightarrow> controller_event list \<Rightarrow> error + (bool \<times> BLEServer)" where
  "connect s address errRc events =
     (let s1 = logger Debug ''>> connect()'' s;
          addr = address
      in case semaphore_take OpenEvt s1 of
           Inl err \<Rightarrow> Inl err
         | Inr s2 \<Rightarrow>
             (let s3 = emit (Esp_ble_gatts_open (getGattsIf s2) addr) s2
              in if errRc \<noteq> ESP_OK
                 then Inr (False, logger Error ''esp_ble_gattc_open: rc='' s3)
                 else (case semaphore_wait OpenEvt s3 events of
                         Inl err \<Rightarrow> Inl err
                       | Inr (rc, s4) \<Rightarrow>
                           Inr (rc = ESP_GATT_OK, logger Debug ''<< connect(), rc='' s4))))"

text \<open>
  \<^verbatim>\<open>getRssi\<close>: \<open>rc\<close> is what \<^verbatim>\<open>esp_ble_gap_read_rssi\<close> returns. The iterator taken with
  \<^verbatim>\<open>std::begin\<close> is never read. The \<^verbatim>\<open>uint32_t\<close> that \<^verbatim>\<open>wait\<close> returns is stored in an
  \<^verbatim>\<open>int\<close>: the same 32 bits, read as signed.
\<close>

definition getRssi ::
  "BLEServer \<Rightarrow> esp_err_t \<Rightarrow> controller_event list \<Rightarrow> error + (c_int \<times> BLEServer)" where
  "getRssi s rc events =
     (let s1 = logger Debug ''>> getRssi()'' s
      in if m_connectedCount s1 \<noteq> 1
         then Inr (0, logger Debug ''<< getRssi(): error, devices connected'' s1)
         else (case semaphore_take RssiCmplEvt s1 of
                 Inl err \<Rightarrow> Inl err
               | Inr s2 \<Rightarrow>
                   (let s3 = emit (Esp_ble_gap_read_rssi (getPeerAddress s2)) s2
                    in if rc \<noteq> ESP_OK
                       then Inr (0, logger Error ''<< getRssi: esp_ble_gap_read_rssi: rc='' s3)
                       else (case semaphore_wait RssiCmplEvt s3 events of
                               Inl err \<Rightarrow> Inl err
                             | Inr (rssiValue, s4) \<Rightarrow>
                                 Inr (rssiValue, logger Debug ''<< getRssi(): '' s4)))))"

text \<open>What a blocking operation returned, and the server it left, when it returned.\<close>

definition returned_value :: "error + ('a \<times> BLEServer) \<Rightarrow> 'a option" where
  "returned_value r = (case r of Inl err \<Rightarrow> None | Inr (v, s) \<Rightarrow> Some v)"

definition returned_server :: "error + ('a \<times> BLEServer) \<Rightarrow> BLEServer option" where
  "returned_server r = (case r of Inl err \<Rightarrow> None | Inr (v, s) \<Rightarrow> Some s)"

subsection \<open>Event kinds named in the statements\<close>

text \<open>
  \<open>signals i e\<close>: the event \<open>e\<close> is of the kind whose case in the dispatcher gives the
  semaphore \<open>i\<close>. \<open>connects c e\<close>: \<open>e\<close> is a peer-connected event for the connection
  identifier \<open>c\<close>.
\<close>

fun signals :: "sem_id \<Rightarrow> controller_event \<Rightarrow> bool" where
  "signals i (GattsEvent (ESP_GATTS_CREATE_EVT status service_handle uuid inst_id) gatts_if) = (i = CreateEvt)"
| "signals i (GattsEvent (ESP_GATTS_REG_EVT status app_id) gatts_if) = (i = RegisterAppEvt)"
| "signals i (GattsEvent (ESP_GATTS_OPEN_EVT status) gatts_if) = (i = OpenEvt)"
| "signals i (GapEvent (ESP_GAP_BLE_READ_RSSI_COMPLETE_EVT status rssi remote_addr)) = (i = RssiCmplEvt)"
| "signals i other = False"

fun connects :: "uint16_t \<Rightarrow> controller_event \<Rightarrow> bool" where
  "connects c (GattsEvent (ESP_GATTS_CONNECT_EVT conn_id remote_bda) gatts_if) = (conn_id = c)"
| "connects c other = False"

subsection \<open>Concrete servers for the examples\<close>

text \<open>
  A peer address, a freshly constructed server, and the server after the peer has
  connected with identifier 7 and negotiated a unit size of 200.
\<close>

definition addr_A :: esp_bd_addr_t where
  "addr_A = BdAddr 0xAA 0xBB 0xCC 0xDD 0xEE 0xFF"

definition server_new :: BLEServer where
  "server_new = BLEServer_ctor (BdAddr 0 0 0 0 0 0)"

definition server_7 :: BLEServer where
  "server_7 = handleGATTServerEvent server_new (ESP_GATTS_CONNECT_EVT 7 addr_A) 3"

definition server_7_200 :: BLEServer where
  "server_7_200 = handleGATTServerEvent server_7 (ESP_GATTS_MTU_EVT 7 200) 3"

text \<open>A server whose registry holds a service under the UUID 180D.\<close>

definition server_180D :: BLEServer where
  "server_180D =
     server_new\<lparr>m_serviceMap := setByUUID (m_serviceMap server_new) ''180D'' 0,
                service_heap := [\<lparr>service_uuid = ''180D'', service_numHandles = 15, m_instId = 0\<rparr>]\<rparr>"

text \<open>The warning that \<^verbatim>\<open>createService\<close> logs for a UUID that is already registered.\<close>

definition duplicate_warning :: "BLEUUID \<Rightarrow> call" where
  "duplicate_warning uuid =
     Log Warning (''<< Attempt to create a new service with uuid '' @ uuid @
                  ''but a service with that UUID already exists.'')"

section \<open>Auxiliary facts\<close>

subsection \<open>The semaphores under the dispatcher\<close>

lemma get_sem_field_updates [simp]:
  "get_sem i (s\<lparr>m_appId := a\<rparr>) = get_sem i s"
  "get_sem i (s\<lparr>m_connId := b\<rparr>) = get_sem i s"
  "get_sem i (s\<lparr>m_connectedCount := n\<rparr>) = get_sem i s"
  "get_sem i (s\<lparr>m_gatts_if := g\<rparr>) = get_sem i s"
  "get_sem i (s\<lparr>m_connectedServersMap := m\<rparr>) = get_sem i s"
  "get_sem i (s\<lparr>m_serviceMap := r\<rparr>) = get_sem i s"
  "get_sem i (s\<lparr>m_pServerCallbacks := cb\<rparr>) = get_sem i s"
  "get_sem i (s\<lparr>m_client_addr := ad\<rparr>) = get_sem i s"
  "get_sem i (s\<lparr>service_heap := h\<rparr>) = get_sem i s"
  "get_sem i (s\<lparr>calls := cs\<rparr>) = get_sem i s"
  by (cases i; simp)+

lemma get_sem_emit [simp]: "get_sem i (emit c s) = get_sem i s"
  by (simp add: emit_def)

lemma get_sem_logger [simp]: "get_sem i (logger l m s) = get_sem i s"
  by (simp add: logger_def)

lemma get_set_sem [simp]: "get_sem i (set_sem j v s) = (if i = j then v else get_sem i s)"
  by (cases i; cases j) simp_all

lemma get_sem_give_value [simp]:
  "get_sem i (semaphore_give_value j v s) =
     (if i = j then (get_sem j s)\<lparr>signalled := True, m_value := v\<rparr> else get_sem i s)"
  by (simp add: semaphore_give_value_def)

lemma get_sem_give [simp]:
  "get_sem i (semaphore_give j s) =
     (if i = j then (get_sem j s)\<lparr>signalled := True\<rparr> else get_sem i s)"
  by (simp add: semaphore_give_def)

lemma get_sem_startAdvertising [simp]: "get_sem i (startAdvertising s) = get_sem i s"
  by (simp add: startAdvertising_def)

lemma get_sem_updatePeerMTU [simp]: "get_sem i (updatePeerMTU s c v) = get_sem i s"
  by (simp add: updatePeerMTU_def Let_def split: option.splits)

lemma get_sem_addPeerDevice [simp]: "get_sem i (addPeerDevice s p b c) = get_sem i s"
  by (simp add: addPeerDevice_def Let_def split: option.splits)

lemma get_sem_removePeerDevice [simp]: "get_sem i (removePeerDevice s c b) = get_sem i s"
  by (simp add: removePeerDevice_def)

lemma get_sem_switch_other:
  "\<not> signals i (GattsEvent ev g) \<Longrightarrow> get_sem i (handleGATTServerEvent_switch s ev g) = get_sem i s"
  by (cases ev) (simp_all add: Let_def split: option.splits)

lemma get_sem_dispatch_other:
  "\<not> signals i e \<Longrightarrow> get_sem i (dispatch s e) = get_sem i s"
proof (cases e)
  case (GattsEvent ev g)
  assume "\<not> signals i e"
  with GattsEvent show ?thesis
    by (simp add: handleGATTServerEvent_def Let_def get_sem_switch_other)
next
  case (GapEvent ev)
  assume "\<not> signals i e"
  with GapEvent show ?thesis
    by (cases ev) (simp_all add: handleGAPEvent_def)
qed

lemma get_sem_dispatch_signal:
  "signals i e \<Longrightarrow> armed (get_sem i (dispatch s e)) = armed (get_sem i s) \<and> signalled (get_sem i (dispatch s e))"
proof (cases e)
  case (GattsEvent ev g)
  assume "signals i e"
  with GattsEvent show ?thesis
    by (cases ev) (simp_all add: handleGATTServerEvent_def Let_def)
next
  case (GapEvent ev)
  assume "signals i e"
  with GapEvent show ?thesis
    by (cases ev) (simp_all add: handleGAPEvent_def)
qed

lemma await_signalled:
  "armed (get_sem i s) \<Longrightarrow> signalled (get_sem i s) \<Longrightarrow>
   await i s es = Inr (m_value (get_sem i s), set_sem i ((get_sem i s)\<lparr>armed := False, signalled := False\<rparr>) s)"
  by (cases es) simp_all

lemma await_first_signal:
  "armed (get_sem i s) \<Longrightarrow> \<not> signalled (get_sem i s) \<Longrightarrow>
   \<forall>x \<in> set pre. \<not> signals i x \<Longrightarrow> signals i e \<Longrightarrow>
   await i s (pre @ e # post) =
     Inr (m_value (get_sem i (dispatch (foldl dispatch s pre) e)),
          set_sem i ((get_sem i (dispatch (foldl dispatch s pre) e))\<lparr>armed := False, signalled := False\<rparr>)
            (dispatch (foldl dispatch s pre) e))"
proof (induction pre arbitrary: s)
  case Nil
  then show ?case
    using get_sem_dispatch_signal [of i e s] by (simp add: await_signalled)
next
  case (Cons x pre)
  then show ?case by (simp add: get_sem_dispatch_other)
qed


subsection \<open>The connection table under the dispatcher\<close>

lemma table_emit [simp]: "m_connectedServersMap (emit c s) = m_connectedServersMap s"
  by (simp add: emit_def)

lemma table_logger [simp]: "m_connectedServersMap (logger l m s) = m_connectedServersMap s"
  by (simp add: logger_def)

lemma table_set_sem [simp]: "m_connectedServersMap (set_sem i v s) = m_connectedServersMap s"
  by (cases i) simp_all

lemma table_give [simp]:
  "m_connectedServersMap (semaphore_give i s) = m_connectedServersMap s"
  "m_connectedServersMap (semaphore_give_value i v s) = m_connectedServersMap s"
  by (simp_all add: semaphore_give_def semaphore_give_value_def)

lemma table_startAdvertising [simp]:
  "m_connectedServersMap (startAdvertising s) = m_connectedServersMap s"
  by (simp add: startAdvertising_def)

lemma table_updatePeerMTU:
  "m_connectedServersMap (updatePeerMTU s c v) =
     (case m_connectedServersMap s c of
        None \<Rightarrow> m_connectedServersMap s
      | Some e \<Rightarrow> (m_connectedServersMap s)(c \<mapsto> e\<lparr>mtu := v\<rparr>))"
  by (simp add: updatePeerMTU_def Let_def split: option.splits)

lemma table_addPeerDevice:
  "m_connectedServersMap (addPeerDevice s p b c) =
     (case m_connectedServersMap s c of
        None \<Rightarrow> (m_connectedServersMap s)(c \<mapsto> \<lparr>peer_device = p, connected = True, mtu = 23\<rparr>)
      | Some e \<Rightarrow> m_connectedServersMap s)"
  by (simp add: addPeerDevice_def Let_def split: option.splits)

lemma table_disconnect:
  "m_connectedServersMap (handleGATTServerEvent s (ESP_GATTS_DISCONNECT_EVT c a r) g) =
     (m_connectedServersMap s)(c := None)"
  by (simp add: handleGATTServerEvent_def Let_def removePeerDevice_def split: option.splits)

lemma table_connect:
  "m_connectedServersMap (handleGATTServerEvent s (ESP_GATTS_CONNECT_EVT c a) g) =
     (case m_connectedServersMap s c of
        None \<Rightarrow> (m_connectedServersMap s)(c \<mapsto> \<lparr>peer_device = BLEServer_this, connected = True, mtu = 23\<rparr>)
      | Some e \<Rightarrow> m_connectedServersMap s)"
  by (simp add: handleGATTServerEvent_def Let_def table_addPeerDevice split: option.splits)

lemma table_absent_dispatch:
  "\<not> connects c e \<Longrightarrow> m_connectedServersMap s c = None \<Longrightarrow>
   m_connectedServersMap (dispatch s e) c = None"
proof (cases e)
  case (GattsEvent ev g)
  assume "\<not> connects c e" and "m_connectedServersMap s c = None"
  with GattsEvent show ?thesis
    by (cases ev)
       (auto simp: handleGATTServerEvent_def Let_def table_updatePeerMTU table_addPeerDevice
          removePeerDevice_def split: option.splits)
next
  case (GapEvent ev)
  assume "m_connectedServersMap s c = None"
  with GapEvent show ?thesis
    by (cases ev) (simp_all add: handleGAPEvent_def)
qed

lemma table_absent_foldl:
  "\<forall>e \<in> set es. \<not> connects c e \<Longrightarrow> m_connectedServersMap s c = None \<Longrightarrow>
   m_connectedServersMap (foldl dispatch s es) c = None"
  by (induction es arbitrary: s) (simp_all add: table_absent_dispatch)

lemma table_mtu:
  "m_connectedServersMap (handleGATTServerEvent s (ESP_GATTS_MTU_EVT c v) g) =
     (case m_connectedServersMap s c of
        None \<Rightarrow> m_connectedServersMap s
      | Some e \<Rightarrow> (m_connectedServersMap s)(c \<mapsto> e\<lparr>mtu := v\<rparr>))"
  by (simp add: handleGATTServerEvent_def Let_def table_updatePeerMTU split: option.splits)

lemma server_7_200_table:
  "m_connectedServersMap server_7_200 = [7 \<mapsto> \<lparr>peer_device = BLEServer_this, connected = True, mtu = 200\<rparr>]"
  by (simp add: server_7_200_def server_7_def server_new_def BLEServer_ctor_def table_connect table_mtu)


lemma calls_switch_connect:
  "calls (handleGATTServerEvent s (ESP_GATTS_CONNECT_EVT c a) g) =
     calls s @ [Log Debug ''>> handleGATTServerEvent: ''] @
       (case m_pServerCallbacks s of
          None \<Rightarrow> []
        | Some cb \<Rightarrow> [Callbacks_onConnect cb, Callbacks_onConnect_param cb]) @
       [ServiceMap_handleGATTServerEvent (ESP_GATTS_CONNECT_EVT c a) g,
        Log Debug ''<< handleGATTServerEvent'']"
  by (simp add: handleGATTServerEvent_def Let_def addPeerDevice_def emit_def logger_def split: option.splits)

lemma fields_connect:
  "m_client_addr (handleGATTServerEvent s (ESP_GATTS_CONNECT_EVT c a) g) = a"
  "m_connId (handleGATTServerEvent s (ESP_GATTS_CONNECT_EVT c a) g) = c"
  "m_connectedCount (handleGATTServerEvent s (ESP_GATTS_CONNECT_EVT c a) g) = m_connectedCount s + 1"
  by (simp_all add: handleGATTServerEvent_def Let_def addPeerDevice_def emit_def logger_def split: option.splits)

lemma server_new_fields:
  "m_connectedServersMap server_new = Map.empty"
  "m_pServerCallbacks server_new = None"
  "calls server_new = []"
  "m_connectedCount server_new = 0"
  "m_gatts_if server_new = ESP_GATT_IF_NONE"
  "m_serviceMap server_new = \<lparr>m_uuidMap = [], m_handleMap = Map.empty\<rparr>"
  "service_heap server_new = []"
  by (simp_all add: server_new_def BLEServer_ctor_def)

lemma unat_minus_1_u32: "unat (- 1 :: uint32_t) = 4294967295"
  by (simp add: unsigned_minus_1_eq_mask mask_eq_exp_minus_1)

lemma semaphore_take_free:
  "\<not> armed (get_sem i s) \<Longrightarrow>
   semaphore_take i s = Inr (emit (Sem_take i) (set_sem i ((get_sem i s)\<lparr>armed := True\<rparr>) s))"
  by (simp add: semaphore_take_def)

lemma open_event_value [simp]:
  "m_value (m_semaphoreOpenEvt (handleGATTServerEvent s (ESP_GATTS_OPEN_EVT status) g)) = status"
  by (simp add: handleGATTServerEvent_def Let_def semaphore_give_value_def emit_def logger_def)

lemma rssi_event_value [simp]:
  "m_value (m_semaphoreRssiCmplEvt (handleGAPEvent s (ESP_GAP_BLE_READ_RSSI_COMPLETE_EVT st v a)))
     = scast v"
  by (simp add: handleGAPEvent_def semaphore_give_value_def emit_def logger_def)

lemma sint_rssi: "sint (scast (v :: int8_t) :: c_int) = sint v"
  by (rule sint_up_scast) (simp add: is_up)

lemma returned_simps [simp]:
  "returned_value (Inr (v, s)) = Some v"
  "returned_value (Inl err) = None"
  "returned_server (Inr (v, s)) = Some s"
  "returned_server (Inl err) = None"
  by (simp_all add: returned_value_def returned_server_def)

lemma connect_accepted:
  assumes free: "rendezvous_available (m_semaphoreOpenEvt s)"
    and quiet: "\<forall>e \<in> set before. \<not> signals OpenEvt e"
  shows "returned_value
           (connect s address ESP_OK (before @ GattsEvent (ESP_GATTS_OPEN_EVT status) gatts_if # after))
         = Some (status = ESP_GATT_OK)"
proof -
  let ?e = "GattsEvent (ESP_GATTS_OPEN_EVT status) gatts_if"
  let ?s1 = "logger Debug ''>> connect()'' s"
  let ?s2 = "emit (Sem_take OpenEvt) (set_sem OpenEvt ((get_sem OpenEvt ?s1)\<lparr>armed := True\<rparr>) ?s1)"
  let ?s3 = "emit (Esp_ble_gatts_open (getGattsIf ?s2) address) ?s2"
  let ?s4 = "emit (Sem_wait OpenEvt) ?s3"
  from free have a: "\<not> armed (get_sem OpenEvt ?s1)" and b: "\<not> signalled (get_sem OpenEvt ?s1)"
    by (simp_all add: rendezvous_available_def)
  from a have take: "semaphore_take OpenEvt ?s1 = Inr ?s2"
    by (rule semaphore_take_free)
  have armed4: "armed (get_sem OpenEvt ?s4)"
    by simp
  from b have clear4: "\<not> signalled (get_sem OpenEvt ?s4)"
    by simp
  have sig: "signals OpenEvt ?e"
    by simp
  have "\<exists>s'. await OpenEvt ?s4 (before @ ?e # after) = Inr (status, s')"
    using await_first_signal [OF armed4 clear4 quiet sig, of after]
    by simp
  then obtain s' where "semaphore_wait OpenEvt ?s3 (before @ ?e # after) = Inr (status, s')"
    by (auto simp: semaphore_wait_def)
  with take show ?thesis
    by (simp add: connect_def Let_def)
qed

lemma server_new_semaphores:
  "m_semaphoreOpenEvt server_new = free_semaphore"
  "m_semaphoreRssiCmplEvt server_new = free_semaphore"
  "m_semaphoreCreateEvt server_new = free_semaphore"
  "m_semaphoreRegisterAppEvt server_new = free_semaphore"
  by (simp_all add: server_new_def BLEServer_ctor_def)

lemma free_semaphore_available [simp]: "rendezvous_available free_semaphore"
  by (simp add: rendezvous_available_def free_semaphore_def)

lemma getRssi_accepted:
  assumes one: "m_connectedCount s = 1"
    and free: "rendezvous_available (m_semaphoreRssiCmplEvt s)"
    and quiet: "\<forall>e \<in> set before. \<not> signals RssiCmplEvt e"
  shows "returned_value
           (getRssi s ESP_OK
              (before @ GapEvent (ESP_GAP_BLE_READ_RSSI_COMPLETE_EVT st v remote_addr) # after))
         = Some (scast v)"
proof -
  let ?e = "GapEvent (ESP_GAP_BLE_READ_RSSI_COMPLETE_EVT st v remote_addr)"
  let ?s1 = "logger Debug ''>> getRssi()'' s"
  let ?s2 = "emit (Sem_take RssiCmplEvt) (set_sem RssiCmplEvt ((get_sem RssiCmplEvt ?s1)\<lparr>armed := True\<rparr>) ?s1)"
  let ?s3 = "emit (Esp_ble_gap_read_rssi (getPeerAddress ?s2)) ?s2"
  let ?s4 = "emit (Sem_wait RssiCmplEvt) ?s3"
  from one have count: "m_connectedCount ?s1 = 1"
    by (simp add: logger_def emit_def)
  from free have a: "\<not> armed (get_sem RssiCmplEvt ?s1)" and b: "\<not> signalled (get_sem RssiCmplEvt ?s1)"
    by (simp_all add: rendezvous_available_def)
  from a have take: "semaphore_take RssiCmplEvt ?s1 = Inr ?s2"
    by (rule semaphore_take_free)
  have armed4: "armed (get_sem RssiCmplEvt ?s4)"
    by simp
  from b have clear4: "\<not> signalled (get_sem RssiCmplEvt ?s4)"
    by simp
  have sig: "signals RssiCmplEvt ?e"
    by simp
  have "\<exists>s'. await RssiCmplEvt ?s4 (before @ ?e # after) = Inr (scast v, s')"
    using await_first_signal [OF armed4 clear4 quiet sig, of after]
    by simp
  then obtain s' where "semaphore_wait RssiCmplEvt ?s3 (before @ ?e # after) = Inr (scast v, s')"
    by (auto simp: semaphore_wait_def)
  with take count show ?thesis
    by (simp add: getRssi_def Let_def)
qed

lemma getRssi_not_one:
  "m_connectedCount s \<noteq> 1 \<Longrightarrow>
   getRssi s rc events =
     Inr (0, s\<lparr>calls := calls s @
                 [Log Debug ''>> getRssi()'', Log Debug ''<< getRssi(): error, devices connected'']\<rparr>)"
  by (simp add: getRssi_def Let_def logger_def emit_def)

lemma server_7_fields:
  "m_connectedCount server_7 = 1"
  "m_semaphoreRssiCmplEvt server_7 = free_semaphore"
  "m_semaphoreOpenEvt server_7 = free_semaphore"
  "m_client_addr server_7 = addr_A"
  "calls server_7 =
     [Log Debug ''>> handleGATTServerEvent: '',
      ServiceMap_handleGATTServerEvent (ESP_GATTS_CONNECT_EVT 7 addr_A) 3,
      Log Debug ''<< handleGATTServerEvent'']"
  by (simp_all add: server_7_def server_new_def BLEServer_ctor_def handleGATTServerEvent_def Let_def
        addPeerDevice_def emit_def logger_def)

lemma connect_rejected:
  "errRc \<noteq> ESP_OK \<Longrightarrow> \<not> armed (m_semaphoreOpenEvt s) \<Longrightarrow>
   connect s address errRc events =
     Inr (False,
          s\<lparr>m_semaphoreOpenEvt := (m_semaphoreOpenEvt s)\<lparr>armed := True\<rparr>,
            calls := calls s @
              [Log Debug ''>> connect()'', Sem_take OpenEvt,
               Esp_ble_gatts_open (m_gatts_if s) address,
               Log Error ''esp_ble_gattc_open: rc='']\<rparr>)"
  by (simp add: connect_def Let_def semaphore_take_def getGattsIf_def logger_def emit_def)

lemma getRssi_rejected:
  "rc \<noteq> ESP_OK \<Longrightarrow> m_connectedCount s = 1 \<Longrightarrow> \<not> armed (m_semaphoreRssiCmplEvt s) \<Longrightarrow>
   getRssi s rc events =
     Inr (0,
          s\<lparr>m_semaphoreRssiCmplEvt := (m_semaphoreRssiCmplEvt s)\<lparr>armed := True\<rparr>,
            calls := calls s @
              [Log Debug ''>> getRssi()'', Sem_take RssiCmplEvt,
               Esp_ble_gap_read_rssi (m_client_addr s),
               Log Error ''<< getRssi: esp_ble_gap_read_rssi: rc='']\<rparr>)"
  by (simp add: getRssi_def Let_def semaphore_take_def getPeerAddress_def logger_def emit_def)

lemma ESP_FAIL_not_OK [simp]: "ESP_FAIL \<noteq> ESP_OK"
  by (simp add: ESP_FAIL_def ESP_OK_def)

lemma free_semaphore_fields [simp]:
  "armed free_semaphore = False"
  "signalled free_semaphore = False"
  by (simp_all add: free_semaphore_def)

lemma calls_create_event:
  "calls (handleGATTServerEvent s (ESP_GATTS_CREATE_EVT status service_handle uuid inst_id) gatts_if) =
     calls s @
       [Log Debug ''>> handleGATTServerEvent: '', Sem_give CreateEvt,
        ServiceMap_handleGATTServerEvent (ESP_GATTS_CREATE_EVT status service_handle uuid inst_id) gatts_if,
        Log Debug ''<< handleGATTServerEvent'']"
  by (simp add: handleGATTServerEvent_def Let_def semaphore_give_def setByHandle_def emit_def logger_def
        split: option.splits)

lemma signalled_create_event:
  "signalled (m_semaphoreCreateEvt
     (handleGATTServerEvent s (ESP_GATTS_CREATE_EVT status service_handle uuid inst_id) gatts_if))"
  by (simp add: handleGATTServerEvent_def Let_def semaphore_give_def setByHandle_def emit_def logger_def
        split: option.splits)

subsection \<open>The registry and the heap under the dispatcher\<close>

lemma first_with_uuid_None_iff:
  "first_with_uuid entries uuid = None \<longleftrightarrow> uuid \<notin> fst ` set entries"
  by (induction entries uuid rule: first_with_uuid.induct) auto

lemma registry_emit [simp]:
  "service_heap (emit c s) = service_heap s"
  "m_serviceMap (emit c s) = m_serviceMap s"
  "calls (emit c s) = calls s @ [c]"
  by (simp_all add: emit_def)

lemma registry_logger [simp]:
  "service_heap (logger l m s) = service_heap s"
  "m_serviceMap (logger l m s) = m_serviceMap s"
  "calls (logger l m s) = calls s @ [Log l m]"
  by (simp_all add: logger_def)

lemma registry_set_sem [simp]:
  "service_heap (set_sem i v s) = service_heap s"
  "m_serviceMap (set_sem i v s) = m_serviceMap s"
  "calls (set_sem i v s) = calls s"
  by (cases i; simp)+

lemma uuidMap_setByHandle [simp]: "m_uuidMap (setByHandle m h p) = m_uuidMap m"
  by (simp add: setByHandle_def split: option.splits)

lemma switch_keeps:
  "service_heap (handleGATTServerEvent_switch s ev g) = service_heap s
   \<and> m_uuidMap (m_serviceMap (handleGATTServerEvent_switch s ev g)) = m_uuidMap (m_serviceMap s)
   \<and> set (calls s) \<subseteq> set (calls (handleGATTServerEvent_switch s ev g))"
  by (cases ev)
     (auto simp: Let_def updatePeerMTU_def addPeerDevice_def removePeerDevice_def startAdvertising_def
        semaphore_give_def semaphore_give_value_def split: option.splits)

lemma dispatch_keeps:
  "service_heap (dispatch s e) = service_heap s
   \<and> m_uuidMap (m_serviceMap (dispatch s e)) = m_uuidMap (m_serviceMap s)
   \<and> set (calls s) \<subseteq> set (calls (dispatch s e))"
proof (cases e)
  case (GattsEvent ev g)
  with switch_keeps [of "logger Debug ''>> handleGATTServerEvent: '' s" ev g] show ?thesis
    by (auto simp: handleGATTServerEvent_def Let_def)
next
  case (GapEvent ev)
  then show ?thesis
    by (cases ev) (auto simp: handleGAPEvent_def semaphore_give_value_def)
qed

lemma foldl_dispatch_keeps:
  "service_heap (foldl dispatch s es) = service_heap s
   \<and> m_uuidMap (m_serviceMap (foldl dispatch s es)) = m_uuidMap (m_serviceMap s)
   \<and> set (calls s) \<subseteq> set (calls (foldl dispatch s es))"
proof (induction es arbitrary: s)
  case Nil
  show ?case by simp
next
  case (Cons e es)
  from Cons.IH [of "dispatch s e"] dispatch_keeps [of s e] show ?case
    by auto
qed

lemma await_keeps:
  assumes "armed (get_sem i s)" and "\<not> signalled (get_sem i s)"
    and "\<forall>x \<in> set before. \<not> signals i x" and "signals i e"
  shows "\<exists>v s'. await i s (before @ e # after) = Inr (v, s')
           \<and> service_heap s' = service_heap s
           \<and> m_uuidMap (m_serviceMap s') = m_uuidMap (m_serviceMap s)
           \<and> set (calls s) \<subseteq> set (calls s')"
proof -
  let ?t = "dispatch (foldl dispatch s before) e"
  from foldl_dispatch_keeps [of s before] dispatch_keeps [of "foldl dispatch s before" e]
  have "service_heap ?t = service_heap s
      \<and> m_uuidMap (m_serviceMap ?t) = m_uuidMap (m_serviceMap s)
      \<and> set (calls s) \<subseteq> set (calls ?t)"
    by auto
  with await_first_signal [OF assms, of after] show ?thesis
    by simp
qed

lemma server_180D_fields:
  "m_uuidMap (m_serviceMap server_180D) = [(''180D'', 0)]"
  "m_semaphoreCreateEvt server_180D = free_semaphore"
  "service_heap server_180D = [\<lparr>service_uuid = ''180D'', service_numHandles = 15, m_instId = 0\<rparr>]"
  by (simp_all add: server_180D_def setByUUID_def server_new_fields server_new_semaphores)

section \<open>The claims\<close>

text \<open>
  C1. When the open-connection counter is not one, \<^verbatim>\<open>getRssi\<close> returns 0 and the only
  calls it has made are its two debug lines: no read request, and the server is
  otherwise unchanged. When the counter is one, the rendezvous is free, the request is
  accepted and the first RSSI completion delivered while the caller waits carries the
  measurement \<open>v\<close>, \<^verbatim>\<open>getRssi\<close> returns \<open>v\<close> (an \<^verbatim>\<open>int8_t\<close> sign-extended to \<^verbatim>\<open>int\<close>).
\<close>

theorem C1_getRssi_sentinel_or_measurement:
  "(getConnectedCount s \<noteq> 1 \<longrightarrow>
      getRssi s rc events =
        Inr (0, s\<lparr>calls := calls s @
                    [Log Debug ''>> getRssi()'', Log Debug ''<< getRssi(): error, devices connected'']\<rparr>))
   \<and> (getConnectedCount s = 1 \<and> rendezvous_available (m_semaphoreRssiCmplEvt s)
        \<and> (\<forall>e \<in> set before. \<not> signals RssiCmplEvt e) \<longrightarrow>
      returned_value
        (getRssi s ESP_OK
           (before @ GapEvent (ESP_GAP_BLE_READ_RSSI_COMPLETE_EVT st v remote_addr) # after))
        = Some (scast v)
      \<and> sint (scast v :: c_int) = sint v)"
  using getRssi_not_one [of s rc events] getRssi_accepted [of s before st v remote_addr after]
  by (simp add: getConnectedCount_def sint_rssi)

theorem C1_witness:
  "getConnectedCount server_new = 0
   \<and> getRssi server_new ESP_OK [GapEvent (ESP_GAP_BLE_READ_RSSI_COMPLETE_EVT 0 (- 60) addr_A)] =
       Inr (0, server_new\<lparr>calls :=
                 [Log Debug ''>> getRssi()'', Log Debug ''<< getRssi(): error, devices connected'']\<rparr>)
   \<and> getConnectedCount server_7 = 1
   \<and> returned_value
       (getRssi server_7 ESP_OK
          [GattsEvent (ESP_GATTS_MTU_EVT 7 200) 3,
           GapEvent (ESP_GAP_BLE_READ_RSSI_COMPLETE_EVT 0 (- 60) addr_A)])
     = Some (- 60)
   \<and> sint (- 60 :: c_int) = - 60"
  using C1_getRssi_sentinel_or_measurement
          [where s = server_new and rc = ESP_OK
             and events = "[GapEvent (ESP_GAP_BLE_READ_RSSI_COMPLETE_EVT 0 (- 60) addr_A)]"]
        C1_getRssi_sentinel_or_measurement
          [where s = server_7 and before = "[GattsEvent (ESP_GATTS_MTU_EVT 7 200) 3]"
             and st = 0 and v = "- 60" and remote_addr = addr_A and after = "[]"]
  by (simp add: getConnectedCount_def server_new_fields server_7_fields)

text \<open>
  C2, as amended. When the controller rejects the request at once and the rendezvous
  is not armed at the call, \<^verbatim>\<open>connect\<close> returns false and \<^verbatim>\<open>getRssi\<close> (with one
  connection counted) returns 0 without waiting, whatever events are pending: the calls
  made are the entry log line, the take of the semaphore, the request and the error log
  line, in this order. The rendezvous is armed before the request is issued.
\<close>

theorem C2_rejected_request_returns_without_waiting:
  "(errRc \<noteq> ESP_OK \<and> \<not> armed (m_semaphoreOpenEvt s) \<longrightarrow>
      returned_value (connect s address errRc events) = Some False
    \<and> map_option calls (returned_server (connect s address errRc events)) =
        Some (calls s @
          [Log Debug ''>> connect()'', Sem_take OpenEvt,
           Esp_ble_gatts_open (getGattsIf s) address,
           Log Error ''esp_ble_gattc_open: rc='']))
   \<and> (rc \<noteq> ESP_OK \<and> getConnectedCount s = 1 \<and> \<not> armed (m_semaphoreRssiCmplEvt s) \<longrightarrow>
      returned_value (getRssi s rc events) = Some 0
    \<and> map_option calls (returned_server (getRssi s rc events)) =
        Some (calls s @
          [Log Debug ''>> getRssi()'', Sem_take RssiCmplEvt,
           Esp_ble_gap_read_rssi (getPeerAddress s),
           Log Error ''<< getRssi: esp_ble_gap_read_rssi: rc='']))"
  using connect_rejected [of errRc s address events] getRssi_rejected [of rc s events]
  by (simp add: getConnectedCount_def getGattsIf_def getPeerAddress_def)

theorem C2_witness:
  "ESP_FAIL \<noteq> ESP_OK
   \<and> returned_value
       (connect server_new addr_A ESP_FAIL [GattsEvent (ESP_GATTS_OPEN_EVT ESP_GATT_OK) 3]) = Some False
   \<and> map_option calls (returned_server
       (connect server_new addr_A ESP_FAIL [GattsEvent (ESP_GATTS_OPEN_EVT ESP_GATT_OK) 3])) =
       Some [Log Debug ''>> connect()'', Sem_take OpenEvt,
             Esp_ble_gatts_open ESP_GATT_IF_NONE addr_A,
             Log Error ''esp_ble_gattc_open: rc='']
   \<and> returned_value (getRssi server_7 ESP_FAIL []) = Some 0
   \<and> map_option calls (returned_server (getRssi server_7 ESP_FAIL [])) =
       Some (calls server_7 @
         [Log Debug ''>> getRssi()'', Sem_take RssiCmplEvt,
          Esp_ble_gap_read_rssi addr_A,
          Log Error ''<< getRssi: esp_ble_gap_read_rssi: rc=''])"
  using C2_rejected_request_returns_without_waiting
          [where errRc = ESP_FAIL and s = server_new and address = addr_A
             and events = "[GattsEvent (ESP_GATTS_OPEN_EVT ESP_GATT_OK) 3]"
             and rc = ESP_OK]
        C2_rejected_request_returns_without_waiting
          [where rc = ESP_FAIL and s = server_7 and events = "[]" and errRc = ESP_OK]
  by (simp add: getConnectedCount_def getGattsIf_def getPeerAddress_def server_new_fields
        server_new_semaphores server_7_fields)

text \<open>
  C2 as stated fails: on a server whose rendezvous is free, a rejected \<^verbatim>\<open>connect\<close>
  (and a rejected \<^verbatim>\<open>getRssi\<close>) returns with the rendezvous armed, so it has been armed
  and it is not available afterwards.
\<close>

theorem C2_counterexample:
  "rendezvous_available (m_semaphoreOpenEvt server_new)
   \<and> returned_value (connect server_new addr_A ESP_FAIL []) = Some False
   \<and> map_option m_semaphoreOpenEvt (returned_server (connect server_new addr_A ESP_FAIL [])) =
       Some \<lparr>armed = True, signalled = False, m_value = 0\<rparr>
   \<and> \<not> rendezvous_available \<lparr>armed = True, signalled = False, m_value = 0\<rparr>
   \<and> rendezvous_available (m_semaphoreRssiCmplEvt server_7)
   \<and> returned_value (getRssi server_7 ESP_FAIL []) = Some 0
   \<and> map_option m_semaphoreRssiCmplEvt (returned_server (getRssi server_7 ESP_FAIL [])) =
       Some \<lparr>armed = True, signalled = False, m_value = 0\<rparr>"
  by (simp add: connect_rejected getRssi_rejected server_new_semaphores server_7_fields
        rendezvous_available_def free_semaphore_def)

text \<open>
  C3. With the open rendezvous free and the request accepted, \<^verbatim>\<open>connect\<close> returns true
  if and only if the status of the first outbound-open-complete event delivered while
  it waits is \<^verbatim>\<open>ESP_GATT_OK\<close>, and false for every other status.
\<close>

theorem C3_connect_true_iff_status_ok:
  assumes "rendezvous_available (m_semaphoreOpenEvt s)"
    and "\<forall>e \<in> set before. \<not> signals OpenEvt e"
  shows "returned_value
           (connect s address ESP_OK (before @ GattsEvent (ESP_GATTS_OPEN_EVT status) gatts_if # after))
         = Some (status = ESP_GATT_OK)
       \<and> (returned_value
           (connect s address ESP_OK (before @ GattsEvent (ESP_GATTS_OPEN_EVT status) gatts_if # after))
           = Some True \<longleftrightarrow> status = ESP_GATT_OK)
       \<and> (returned_value
           (connect s address ESP_OK (before @ GattsEvent (ESP_GATTS_OPEN_EVT status) gatts_if # after))
           = Some False \<longleftrightarrow> status \<noteq> ESP_GATT_OK)"
  using connect_accepted [OF assms, of address status gatts_if after] by simp

theorem C3_witness:
  "rendezvous_available (m_semaphoreOpenEvt server_new)
   \<and> returned_value
       (connect server_new addr_A ESP_OK
          [GattsEvent (ESP_GATTS_CONNECT_EVT 7 addr_A) 3, GattsEvent (ESP_GATTS_OPEN_EVT ESP_GATT_OK) 3])
     = Some True
   \<and> returned_value
       (connect server_new addr_A ESP_OK
          [GattsEvent (ESP_GATTS_CONNECT_EVT 7 addr_A) 3, GattsEvent (ESP_GATTS_OPEN_EVT 133) 3])
     = Some False"
  using C3_connect_true_iff_status_ok
          [where s = server_new and before = "[GattsEvent (ESP_GATTS_CONNECT_EVT 7 addr_A) 3]"
             and address = addr_A and status = ESP_GATT_OK and gatts_if = 3 and after = "[]"]
        C3_connect_true_iff_status_ok
          [where s = server_new and before = "[GattsEvent (ESP_GATTS_CONNECT_EVT 7 addr_A) 3]"
             and address = addr_A and status = 133 and gatts_if = 3 and after = "[]"]
  by (simp add: server_new_semaphores ESP_GATT_OK_def)

text \<open>
  C4. A disconnect event removes the entry of its connection identifier from the
  connection table and touches no other entry; when the identifier has no entry the
  table is unchanged; and after the removal the identifier has no entry through any
  later events that are not a connect event for it, until a connect event for the same
  identifier inserts a fresh entry (unit size 23, connected).
\<close>

theorem C4_disconnect_removes_entry:
  "let s' = handleGATTServerEvent s (ESP_GATTS_DISCONNECT_EVT conn_id bda reason) gatts_if in
     m_connectedServersMap s' conn_id = None
   \<and> (\<forall>k. k \<noteq> conn_id \<longrightarrow> m_connectedServersMap s' k = m_connectedServersMap s k)
   \<and> (m_connectedServersMap s conn_id = None \<longrightarrow> m_connectedServersMap s' = m_connectedServersMap s)
   \<and> ((\<forall>e \<in> set later. \<not> connects conn_id e) \<longrightarrow>
        m_connectedServersMap (foldl dispatch s' later) conn_id = None
      \<and> m_connectedServersMap
          (dispatch (foldl dispatch s' later) (GattsEvent (ESP_GATTS_CONNECT_EVT conn_id bda2) gatts_if2)) conn_id
        = Some \<lparr>peer_device = BLEServer_this, connected = True, mtu = 23\<rparr>)"
proof -
  let ?s' = "handleGATTServerEvent s (ESP_GATTS_DISCONNECT_EVT conn_id bda reason) gatts_if"
  have gone: "m_connectedServersMap ?s' conn_id = None"
    by (simp add: table_disconnect)
  have others: "\<forall>k. k \<noteq> conn_id \<longrightarrow> m_connectedServersMap ?s' k = m_connectedServersMap s k"
    by (simp add: table_disconnect)
  have noop: "m_connectedServersMap s conn_id = None \<longrightarrow> m_connectedServersMap ?s' = m_connectedServersMap s"
    by (auto simp: table_disconnect)
  have until: "(\<forall>e \<in> set later. \<not> connects conn_id e) \<longrightarrow>
        m_connectedServersMap (foldl dispatch ?s' later) conn_id = None
      \<and> m_connectedServersMap
          (dispatch (foldl dispatch ?s' later) (GattsEvent (ESP_GATTS_CONNECT_EVT conn_id bda2) gatts_if2)) conn_id
        = Some \<lparr>peer_device = BLEServer_this, connected = True, mtu = 23\<rparr>"
  proof
    assume quiet: "\<forall>e \<in> set later. \<not> connects conn_id e"
    have absent: "m_connectedServersMap (foldl dispatch ?s' later) conn_id = None"
      using quiet gone by (rule table_absent_foldl)
    then show "m_connectedServersMap (foldl dispatch ?s' later) conn_id = None
      \<and> m_connectedServersMap
          (dispatch (foldl dispatch ?s' later) (GattsEvent (ESP_GATTS_CONNECT_EVT conn_id bda2) gatts_if2)) conn_id
        = Some \<lparr>peer_device = BLEServer_this, connected = True, mtu = 23\<rparr>"
      by (simp add: table_connect)
  qed
  from gone others noop until show ?thesis
    unfolding Let_def by blast
qed


theorem C4_witness:
  "m_connectedServersMap server_7_200 7 = Some \<lparr>peer_device = BLEServer_this, connected = True, mtu = 200\<rparr>
   \<and> m_connectedServersMap
        (handleGATTServerEvent server_7_200 (ESP_GATTS_DISCONNECT_EVT 7 addr_A 19) 3) 7 = None
   \<and> m_connectedServersMap
        (foldl dispatch (handleGATTServerEvent server_7_200 (ESP_GATTS_DISCONNECT_EVT 7 addr_A 19) 3)
           [GattsEvent (ESP_GATTS_MTU_EVT 7 100) 3, GattsEvent (ESP_GATTS_CONNECT_EVT 8 addr_A) 3]) 7 = None
   \<and> m_connectedServersMap
        (dispatch
          (foldl dispatch (handleGATTServerEvent server_7_200 (ESP_GATTS_DISCONNECT_EVT 7 addr_A 19) 3)
             [GattsEvent (ESP_GATTS_MTU_EVT 7 100) 3, GattsEvent (ESP_GATTS_CONNECT_EVT 8 addr_A) 3])
          (GattsEvent (ESP_GATTS_CONNECT_EVT 7 addr_A) 3)) 7
       = Some \<lparr>peer_device = BLEServer_this, connected = True, mtu = 23\<rparr>"
  using C4_disconnect_removes_entry
          [of server_7_200 7 addr_A 19 3
              "[GattsEvent (ESP_GATTS_MTU_EVT 7 100) 3, GattsEvent (ESP_GATTS_CONNECT_EVT 8 addr_A) 3]"
              addr_A 3]
  by (simp add: Let_def server_7_200_table)

text \<open>
  C5, as amended. On a peer-connected event the dispatcher inserts, when the event's
  connection identifier has no entry in the connection table, an entry whose unit size
  is 23 and whose connected flag is true; an entry that is already there is kept as it
  is, and no other entry changes. It copies the six bytes of the peer address into
  \<open>m_client_addr\<close>, calls both \<^verbatim>\<open>onConnect\<close> callbacks when a callback object is
  registered and none otherwise, and adds one to the 32-bit counter.
\<close>

theorem C5_connect_event_effects:
  "let s' = handleGATTServerEvent s (ESP_GATTS_CONNECT_EVT conn_id remote_bda) gatts_if in
     (m_connectedServersMap s conn_id = None \<longrightarrow>
        m_connectedServersMap s' conn_id = Some \<lparr>peer_device = BLEServer_this, connected = True, mtu = 23\<rparr>)
   \<and> (\<forall>old. m_connectedServersMap s conn_id = Some old \<longrightarrow> m_connectedServersMap s' conn_id = Some old)
   \<and> (\<forall>k. k \<noteq> conn_id \<longrightarrow> m_connectedServersMap s' k = m_connectedServersMap s k)
   \<and> m_client_addr s' = remote_bda
   \<and> getPeerAddress s' = remote_bda
   \<and> (\<forall>cb. m_pServerCallbacks s = Some cb \<longrightarrow>
        calls s' = calls s @
          [Log Debug ''>> handleGATTServerEvent: '',
           Callbacks_onConnect cb, Callbacks_onConnect_param cb,
           ServiceMap_handleGATTServerEvent (ESP_GATTS_CONNECT_EVT conn_id remote_bda) gatts_if,
           Log Debug ''<< handleGATTServerEvent''])
   \<and> (m_pServerCallbacks s = None \<longrightarrow>
        calls s' = calls s @
          [Log Debug ''>> handleGATTServerEvent: '',
           ServiceMap_handleGATTServerEvent (ESP_GATTS_CONNECT_EVT conn_id remote_bda) gatts_if,
           Log Debug ''<< handleGATTServerEvent''])
   \<and> getConnectedCount s' = getConnectedCount s + 1"
  unfolding Let_def
  by (simp add: table_connect calls_switch_connect fields_connect getPeerAddress_def getConnectedCount_def
        split: option.splits)

theorem C5_witness:
  "m_connectedServersMap
     (handleGATTServerEvent (setCallbacks server_new (Some 1)) (ESP_GATTS_CONNECT_EVT 7 addr_A) 3) 7
   = Some \<lparr>peer_device = BLEServer_this, connected = True, mtu = 23\<rparr>
   \<and> m_connectedServersMap
     (handleGATTServerEvent server_7_200 (ESP_GATTS_CONNECT_EVT 7 addr_A) 3) 7
   = Some \<lparr>peer_device = BLEServer_this, connected = True, mtu = 200\<rparr>
   \<and> getPeerAddress
     (handleGATTServerEvent (setCallbacks server_new (Some 1)) (ESP_GATTS_CONNECT_EVT 7 addr_A) 3) = addr_A
   \<and> calls (handleGATTServerEvent (setCallbacks server_new (Some 1)) (ESP_GATTS_CONNECT_EVT 7 addr_A) 3)
     = [Log Debug ''>> handleGATTServerEvent: '',
        Callbacks_onConnect 1, Callbacks_onConnect_param 1,
        ServiceMap_handleGATTServerEvent (ESP_GATTS_CONNECT_EVT 7 addr_A) 3,
        Log Debug ''<< handleGATTServerEvent'']
   \<and> calls (handleGATTServerEvent server_new (ESP_GATTS_CONNECT_EVT 7 addr_A) 3)
     = [Log Debug ''>> handleGATTServerEvent: '',
        ServiceMap_handleGATTServerEvent (ESP_GATTS_CONNECT_EVT 7 addr_A) 3,
        Log Debug ''<< handleGATTServerEvent'']
   \<and> getConnectedCount
     (handleGATTServerEvent (setCallbacks server_new (Some 1)) (ESP_GATTS_CONNECT_EVT 7 addr_A) 3) = 1"
  using C5_connect_event_effects [of "setCallbacks server_new (Some 1)" 7 addr_A 3]
        C5_connect_event_effects [of server_7_200 7 addr_A 3]
        C5_connect_event_effects [of server_new 7 addr_A 3]
  by (simp add: Let_def setCallbacks_def server_new_fields server_7_200_table getConnectedCount_def)

text \<open>
  C5 as stated fails: the identifier 7 has an entry with the negotiated unit size 200,
  and after a peer-connected event for 7 its entry still has the unit size 200, not 23.
\<close>

theorem C5_counterexample:
  "m_connectedServersMap server_7_200 7
     = Some \<lparr>peer_device = BLEServer_this, connected = True, mtu = 200\<rparr>
   \<and> m_connectedServersMap
       (handleGATTServerEvent server_7_200 (ESP_GATTS_CONNECT_EVT 7 addr_A) 3) 7
     = Some \<lparr>peer_device = BLEServer_this, connected = True, mtu = 200\<rparr>
   \<and> getPeerMTU (handleGATTServerEvent server_7_200 (ESP_GATTS_CONNECT_EVT 7 addr_A) 3) 7 = Inr 200"
  by (simp add: table_connect server_7_200_table getPeerMTU_def)

text \<open>
  C6. \<^verbatim>\<open>updatePeerMTU\<close> leaves the whole server unchanged when the identifier has no
  entry; when it has one, the entry keeps its \<open>peer_device\<close> and \<open>connected\<close> fields and
  gets the new \<open>mtu\<close>; no other entry changes, and no member of the server other than
  the connection table changes.
\<close>

theorem C6_updatePeerMTU_frame:
  "(m_connectedServersMap s conn_id = None \<longrightarrow> updatePeerMTU s conn_id new_mtu = s)
   \<and> (\<forall>e. m_connectedServersMap s conn_id = Some e \<longrightarrow>
         m_connectedServersMap (updatePeerMTU s conn_id new_mtu) conn_id = Some (e\<lparr>mtu := new_mtu\<rparr>)
       \<and> map_option peer_device (m_connectedServersMap (updatePeerMTU s conn_id new_mtu) conn_id)
           = Some (peer_device e)
       \<and> map_option connected (m_connectedServersMap (updatePeerMTU s conn_id new_mtu) conn_id)
           = Some (connected e)
       \<and> map_option mtu (m_connectedServersMap (updatePeerMTU s conn_id new_mtu) conn_id)
           = Some new_mtu)
   \<and> (\<forall>k. k \<noteq> conn_id \<longrightarrow>
         m_connectedServersMap (updatePeerMTU s conn_id new_mtu) k = m_connectedServersMap s k)
   \<and> updatePeerMTU s conn_id new_mtu =
       s\<lparr>m_connectedServersMap := m_connectedServersMap (updatePeerMTU s conn_id new_mtu)\<rparr>"
  by (simp add: updatePeerMTU_def Let_def split: option.splits)

theorem C6_witness:
  "m_connectedServersMap (updatePeerMTU server_7 7 200) 7
     = Some \<lparr>peer_device = BLEServer_this, connected = True, mtu = 200\<rparr>
   \<and> m_connectedServersMap (updatePeerMTU server_7 7 200) 8 = None
   \<and> updatePeerMTU server_7 8 200 = server_7"
  using C6_updatePeerMTU_frame [of server_7 7 200] C6_updatePeerMTU_frame [of server_7 8 200]
  by (simp add: server_7_def server_new_def BLEServer_ctor_def table_connect)

text \<open>
  C7. When the registry already holds a service under the UUID, the create rendezvous
  is free and a creation-confirmed event is delivered while the caller waits,
  \<^verbatim>\<open>createService\<close> returns (no error): it has logged the duplicate-UUID warning, made
  a new service object with the given UUID, capacity hint and instance, appended it to
  the registry under the UUID, and the pointer it returns is the new object's.
\<close>

theorem C7_createService_duplicate_uuid:
  assumes dup: "uuid \<in> fst ` set (m_uuidMap (m_serviceMap s))"
    and free: "rendezvous_available (m_semaphoreCreateEvt s)"
    and quiet: "\<forall>e \<in> set before. \<not> signals CreateEvt e"
    and confirmed: "signals CreateEvt e"
  shows "\<exists>s'. createService s uuid numHandles inst_id (before @ e # after)
                 = Inr (length (service_heap s), s')
           \<and> duplicate_warning uuid \<in> set (calls s')
           \<and> service_heap s' = service_heap s @
                [\<lparr>service_uuid = uuid, service_numHandles = numHandles, m_instId = inst_id\<rparr>]
           \<and> m_uuidMap (m_serviceMap s') =
                m_uuidMap (m_serviceMap s) @ [(uuid, length (service_heap s))]
           \<and> getServiceByUUID s' uuid \<noteq> None"
proof -
  let ?p = "length (service_heap s)"
  let ?s1 = "logger Debug (''>> createService - '' @ uuid) s"
  let ?s2 = "emit (Sem_take CreateEvt) (set_sem CreateEvt ((get_sem CreateEvt ?s1)\<lparr>armed := True\<rparr>) ?s1)"
  let ?s3 = "logger Warning
               (''<< Attempt to create a new service with uuid '' @ uuid @
                ''but a service with that UUID already exists.'') ?s2"
  let ?s4 = "?s3\<lparr>service_heap := service_heap ?s3 @
               [\<lparr>service_uuid = uuid, service_numHandles = numHandles, m_instId = 0\<rparr>]\<rparr>"
  let ?s5 = "?s4\<lparr>service_heap := (service_heap ?s4)
               [?p := (service_heap ?s4 ! ?p)\<lparr>m_instId := inst_id\<rparr>]\<rparr>"
  let ?s6 = "?s5\<lparr>m_serviceMap := setByUUID (m_serviceMap ?s5) uuid ?p\<rparr>"
  let ?s7 = "emit (Service_executeCreate ?p) ?s6"
  let ?s7w = "emit (Sem_wait CreateEvt) ?s7"
  from free have a: "\<not> armed (get_sem CreateEvt ?s1)" and b: "\<not> signalled (get_sem CreateEvt ?s1)"
    by (simp_all add: rendezvous_available_def)
  from a have take: "semaphore_take CreateEvt ?s1 = Inr ?s2"
    by (rule semaphore_take_free)
  from dup have found: "getByUUID (m_serviceMap ?s2) uuid 0 \<noteq> None"
    by (simp add: getByUUID_def first_with_uuid_None_iff)
  have armed7: "armed (get_sem CreateEvt ?s7w)"
    by simp
  from b have clear7: "\<not> signalled (get_sem CreateEvt ?s7w)"
    by simp
  from await_keeps [OF armed7 clear7 quiet confirmed, of after]
  obtain v s8 where run: "await CreateEvt ?s7w (before @ e # after) = Inr (v, s8)"
    and heap8: "service_heap s8 = service_heap ?s7w"
    and map8: "m_uuidMap (m_serviceMap s8) = m_uuidMap (m_serviceMap ?s7w)"
    and calls8: "set (calls ?s7w) \<subseteq> set (calls s8)"
    by blast
  let ?s' = "logger Debug ''<< createService'' s8"
  from take found run have result:
    "createService s uuid numHandles inst_id (before @ e # after) = Inr (?p, ?s')"
    by (simp add: createService_def Let_def semaphore_wait_def)
  have "duplicate_warning uuid \<in> set (calls ?s7w)"
    by (simp add: duplicate_warning_def)
  with calls8 have warned: "duplicate_warning uuid \<in> set (calls ?s')"
    by auto
  from heap8 have heap: "service_heap ?s' = service_heap s @
      [\<lparr>service_uuid = uuid, service_numHandles = numHandles, m_instId = inst_id\<rparr>]"
    by simp
  from map8 have reg: "m_uuidMap (m_serviceMap ?s') = m_uuidMap (m_serviceMap s) @ [(uuid, ?p)]"
    by (simp add: setByUUID_def)
  from reg have look: "getServiceByUUID ?s' uuid \<noteq> None"
    by (simp add: getServiceByUUID_def getByUUID_def first_with_uuid_None_iff)
  from result warned heap reg look show ?thesis
    by blast
qed

theorem C7_witness:
  "getServiceByUUID server_180D ''180D'' = Some 0
   \<and> rendezvous_available (m_semaphoreCreateEvt server_180D)
   \<and> (\<exists>s'. createService server_180D ''180D'' 15 1
               [GattsEvent (ESP_GATTS_MTU_EVT 7 200) 3,
                GattsEvent (ESP_GATTS_CREATE_EVT ESP_GATT_OK 43 ''180D'' 1) 3] = Inr (1, s')
          \<and> duplicate_warning ''180D'' \<in> set (calls s')
          \<and> service_heap s' =
               [\<lparr>service_uuid = ''180D'', service_numHandles = 15, m_instId = 0\<rparr>,
                \<lparr>service_uuid = ''180D'', service_numHandles = 15, m_instId = 1\<rparr>]
          \<and> m_uuidMap (m_serviceMap s') = [(''180D'', 0), (''180D'', 1)])"
  using C7_createService_duplicate_uuid
          [where s = server_180D and uuid = "''180D''" and numHandles = 15 and inst_id = 1
             and before = "[GattsEvent (ESP_GATTS_MTU_EVT 7 200) 3]"
             and e = "GattsEvent (ESP_GATTS_CREATE_EVT ESP_GATT_OK 43 ''180D'' 1) 3"
             and after = "[]"]
  by (simp add: server_180D_fields getServiceByUUID_def getByUUID_def) blast

text \<open>
  C8, as amended. A service-creation-confirmed event is handled in one way whether or
  not its (UUID, instance) resolves to a registry entry: the calls made for it are the
  dispatcher's two debug lines, the give of the create semaphore and the forwarding to
  the services, and the create rendezvous is signalled. No warning and no error is
  logged; an unresolved event is not reported.
\<close>

theorem C8_create_event_never_reported:
  "calls (handleGATTServerEvent s (ESP_GATTS_CREATE_EVT status service_handle uuid inst_id) gatts_if) =
     calls s @
       [Log Debug ''>> handleGATTServerEvent: '', Sem_give CreateEvt,
        ServiceMap_handleGATTServerEvent (ESP_GATTS_CREATE_EVT status service_handle uuid inst_id) gatts_if,
        Log Debug ''<< handleGATTServerEvent'']
   \<and> signalled (m_semaphoreCreateEvt
        (handleGATTServerEvent s (ESP_GATTS_CREATE_EVT status service_handle uuid inst_id) gatts_if))"
  by (simp add: calls_create_event signalled_create_event)

text \<open>
  C8 as stated fails: on a new server the UUID 180D resolves to nothing, and the calls
  made for its creation-confirmed event are exactly those made when it does resolve;
  none of them reports a fault.
\<close>

theorem C8_counterexample:
  "getByUUID (m_serviceMap server_new) ''180D'' 0 = None
   \<and> calls server_new = []
   \<and> calls (handleGATTServerEvent server_new (ESP_GATTS_CREATE_EVT ESP_GATT_OK 42 ''180D'' 0) 3) =
       [Log Debug ''>> handleGATTServerEvent: '', Sem_give CreateEvt,
        ServiceMap_handleGATTServerEvent (ESP_GATTS_CREATE_EVT ESP_GATT_OK 42 ''180D'' 0) 3,
        Log Debug ''<< handleGATTServerEvent'']
   \<and> getByUUID (m_serviceMap server_180D) ''180D'' 0 = Some 0
   \<and> calls server_180D = []
   \<and> calls (handleGATTServerEvent server_180D (ESP_GATTS_CREATE_EVT ESP_GATT_OK 42 ''180D'' 0) 3) =
       [Log Debug ''>> handleGATTServerEvent: '', Sem_give CreateEvt,
        ServiceMap_handleGATTServerEvent (ESP_GATTS_CREATE_EVT ESP_GATT_OK 42 ''180D'' 0) 3,
        Log Debug ''<< handleGATTServerEvent'']"
  by (simp add: calls_create_event server_new_fields server_180D_def getByUUID_def setByUUID_def)

text \<open>
  C9. The disconnect case subtracts one from the 32-bit counter for every server and
  every connection identifier, whether or not the identifier has an entry; when the
  counter is zero, \<^verbatim>\<open>getConnectedCount\<close> reports 4294967295 afterwards.
\<close>

theorem C9_disconnect_decrements_unconditionally:
  "getConnectedCount (handleGATTServerEvent s (ESP_GATTS_DISCONNECT_EVT conn_id bda reason) gatts_if)
     = getConnectedCount s - 1
   \<and> (getConnectedCount s = 0 \<longrightarrow>
        unat (getConnectedCount
               (handleGATTServerEvent s (ESP_GATTS_DISCONNECT_EVT conn_id bda reason) gatts_if))
          = 4294967295)"
proof -
  have step: "m_connectedCount (handleGATTServerEvent s (ESP_GATTS_DISCONNECT_EVT conn_id bda reason) gatts_if)
     = m_connectedCount s - 1"
    by (simp add: handleGATTServerEvent_def Let_def removePeerDevice_def startAdvertising_def
          emit_def logger_def split: option.splits)
  have wrap: "unat ((0 :: uint32_t) - 1) = 4294967295"
    by (simp add: unat_minus_1_u32)
  from step wrap show ?thesis
    by (simp add: getConnectedCount_def)
qed

theorem C9_witness:
  "m_connectedServersMap server_new 7 = None
   \<and> getConnectedCount server_new = 0
   \<and> unat (getConnectedCount
         (handleGATTServerEvent server_new (ESP_GATTS_DISCONNECT_EVT 7 addr_A 19) 3)) = 4294967295"
  using C9_disconnect_decrements_unconditionally [of server_new 7 addr_A 19 3]
  by (simp add: getConnectedCount_def server_new_fields unat_minus_1_u32)

text \<open>
  C10. \<^verbatim>\<open>getPeerMTU\<close> returns the \<open>mtu\<close> of the identifier's entry when the entry
  exists, and dereferences the end iterator when it does not: the result is a value
  exactly when the entry exists, and the error exactly when it does not.
\<close>

theorem C10_getPeerMTU_partial:
  "(\<forall>e. m_connectedServersMap s conn_id = Some e \<longrightarrow> getPeerMTU s conn_id = Inr (mtu e))
   \<and> (m_connectedServersMap s conn_id = None \<longrightarrow> getPeerMTU s conn_id = Inl EndIteratorDereferenced)
   \<and> ((\<exists>v. getPeerMTU s conn_id = Inr v) \<longleftrightarrow> (\<exists>e. m_connectedServersMap s conn_id = Some e))
   \<and> (getPeerMTU s conn_id = Inl EndIteratorDereferenced \<longleftrightarrow> m_connectedServersMap s conn_id = None)"
  by (simp add: getPeerMTU_def split: option.splits)

theorem C10_witness:
  "getPeerMTU server_7_200 7 = Inr 200 \<and> getPeerMTU server_7_200 8 = Inl EndIteratorDereferenced"
  using C10_getPeerMTU_partial [of server_7_200 7] C10_getPeerMTU_partial [of server_7_200 8]
  by (simp add: server_7_200_table)

end
